theory Spec2Isabelle
  imports Main "HOL-Library.Word" "HOL-Library.Sublist"
begin

section \<open>Severity levels and the standard filter (filterstd.go)\<close>

text \<open>
  Modelled from the spec: the declarations of the types \<open>Level\<close>, \<open>LevelID\<close> and \<open>Color\<close>
  are not among the sources. A level is "an ordered identifier (lower numeric rank =
  higher importance), a short code, a display label, a color hint"; the fields are the
  ones filterstd.go reads and writes (\<open>ID\<close>, \<open>Name\<close>, \<open>DisplayName\<close>, \<open>Color\<close>,
  \<open>Stacktrace\<close>). The rank is an unsigned number, here a \<open>nat\<close>; it is only ever
  compared. \<open>NoColor\<close> stands for the zero value of \<open>Color\<close>.
\<close>

datatype Color = NoColor | Red | Green | Yellow | Magenta

record Level =
  ID :: nat
  Name :: string
  DisplayName :: string
  Color :: Color
  Stacktrace :: bool

text \<open>The zero value of the struct: what \<open>var levelEnabled Level\<close> holds.\<close>

definition Level_zero :: Level where
  "Level_zero = \<lparr>ID = 0, Name = [], DisplayName = [], Color = NoColor, Stacktrace = False\<rparr>"

definition Panic :: Level where
  "Panic = \<lparr>ID = 0, Name = ''panic'', DisplayName = ''PNC'', Color = Red, Stacktrace = False\<rparr>"

definition Fatal :: Level where
  "Fatal = \<lparr>ID = 1, Name = ''fatal'', DisplayName = ''FTL'', Color = Red, Stacktrace = False\<rparr>"

definition Error :: Level where
  "Error = \<lparr>ID = 2, Name = ''error'', DisplayName = ''ERR'', Color = Red, Stacktrace = False\<rparr>"

definition Warn :: Level where
  "Warn = \<lparr>ID = 3, Name = ''warn'', DisplayName = ''WRN'', Color = Red, Stacktrace = False\<rparr>"

definition Info :: Level where
  "Info = \<lparr>ID = 4, Name = ''info'', DisplayName = ''INF'', Color = Green, Stacktrace = False\<rparr>"

definition Debug :: Level where
  "Debug = \<lparr>ID = 5, Name = ''debug'', DisplayName = ''DBG'', Color = Yellow, Stacktrace = False\<rparr>"

definition Trace :: Level where
  "Trace = \<lparr>ID = 6, Name = ''trace'', DisplayName = ''TRC'', Color = Magenta, Stacktrace = False\<rparr>"

lemmas named_levels =
  Panic_def Fatal_def Error_def Warn_def Info_def Debug_def Trace_def

text \<open>
  \<open>StdFilter\<close> has the two thresholds \<open>Lvl\<close> and \<open>Stacktrace\<close>; the second field is
  named \<open>StacktraceLvl\<close> here, \<open>Stacktrace\<close> being the flag of \<open>Level\<close> already.
\<close>

record StdFilter =
  Lvl :: Level
  StacktraceLvl :: Level

text \<open>
  \<open>GetEnabledLevel\<close>: the \<open>switch\<close> on \<open>level.ID\<close> takes the first matching case, the
  \<open>default\<close> one keeps the input; a level that is not enabled leaves the zero value.
  The stacktrace flag is set afterwards, on either.
\<close>

definition GetEnabledLevel :: "StdFilter \<Rightarrow> Level \<Rightarrow> Level \<times> bool" where
  "GetEnabledLevel lt level =
     (let enabled = (ID level \<le> ID (Lvl lt));
          stackTrace = (ID level \<le> ID (StacktraceLvl lt));
          levelEnabled =
            (if enabled then
               (if ID level = ID Panic then Panic
                else if ID level = ID Fatal then Fatal
                else if ID level = ID Error then Error
                else if ID level = ID Warn then Warn
                else if ID level = ID Info then Info
                else if ID level = ID Debug then Debug
                else if ID level = ID Trace then Trace
                else level)
             else Level_zero);
          levelEnabled' =
            (if stackTrace then levelEnabled\<lparr>Stacktrace := True\<rparr> else levelEnabled)
      in (levelEnabled', enabled))"

definition IsEnabled :: "StdFilter \<Rightarrow> Level \<Rightarrow> bool" where
  "IsEnabled lt level = (ID level \<le> ID (Lvl lt))"

definition IsStacktraceEnabled :: "StdFilter \<Rightarrow> Level \<Rightarrow> bool" where
  "IsStacktraceEnabled lt level = (ID level \<le> ID (StacktraceLvl lt))"

section \<open>Go channels\<close>

text \<open>
  A channel is its buffer (oldest element first), its capacity, whether it has been
  closed, and whether a receiver is parked at it, blocked in a receive. A channel
  variable may be nil, so the fields that hold one are options. The operations are the
  non-blocking ones a \<open>select\<close> performs. A send panics on a closed channel and is
  never ready on a nil one. With a receiver parked the send completes whatever the
  capacity, zero included: the element goes to the receiver directly, not through the
  buffer, and the receiver is woken (\<open>HandedOver\<close>). Otherwise the send is ready when
  the buffer has room. A receive takes the oldest element, yields the zero value (a nil
  pointer, \<open>None\<close>) on a channel that is closed and empty, and is not ready otherwise.
\<close>

record 'a chan =
  buf :: "'a list"
  capacity :: nat
  is_closed :: bool
  parked :: bool

definition make_chan :: "nat \<Rightarrow> 'a chan" where
  "make_chan n = \<lparr>buf = [], capacity = n, is_closed = False, parked = False\<rparr>"

datatype 'a send_result = Sent "'a chan" | HandedOver "'a chan" | SendNotReady | SendPanic

definition chan_send :: "'a chan option \<Rightarrow> 'a \<Rightarrow> 'a send_result" where
  "chan_send ch x =
     (case ch of
        None \<Rightarrow> SendNotReady
      | Some c \<Rightarrow>
          if is_closed c then SendPanic
          else if parked c then HandedOver (c\<lparr>parked := False\<rparr>)
          else if length (buf c) < capacity c then Sent (c\<lparr>buf := buf c @ [x]\<rparr>)
          else SendNotReady)"

datatype 'a recv_result = Received "'a option" "'a chan" | RecvNotReady

definition chan_recv :: "'a chan option \<Rightarrow> 'a recv_result" where
  "chan_recv ch =
     (case ch of
        None \<Rightarrow> RecvNotReady
      | Some c \<Rightarrow>
          (case buf c of
             x # xs \<Rightarrow> Received (Some x) (c\<lparr>buf := xs\<rparr>)
           | [] \<Rightarrow> if is_closed c then Received None c else RecvNotReady))"

text \<open>
  \<open>close\<close> panics on a nil channel and on a closed one: \<open>None\<close>, with the text of
  the panic in \<open>chan_close_panic\<close>. It wakes a parked receiver. A receiver parks when
  its blocking receive finds nothing ready.
\<close>

definition chan_close :: "'a chan option \<Rightarrow> 'a chan option" where
  "chan_close ch =
     (case ch of
        None \<Rightarrow> None
      | Some c \<Rightarrow>
          if is_closed c then None else Some (c\<lparr>is_closed := True, parked := False\<rparr>))"

definition chan_close_panic :: "'a chan option \<Rightarrow> string" where
  "chan_close_panic ch =
     (case ch of None \<Rightarrow> ''close of nil channel'' | Some c \<Rightarrow> ''close of closed channel'')"

definition chan_park :: "'a chan option \<Rightarrow> 'a chan option" where
  "chan_park ch = (case ch of None \<Rightarrow> None | Some c \<Rightarrow> Some (c\<lparr>parked := True\<rparr>))"

definition chan_cap :: "'a chan option \<Rightarrow> nat" where
  "chan_cap ch = (case ch of None \<Rightarrow> 0 | Some c \<Rightarrow> capacity c)"

definition chan_len :: "'a chan option \<Rightarrow> nat" where
  "chan_len ch = (case ch of None \<Rightarrow> 0 | Some c \<Rightarrow> length (buf c))"

section \<open>Records, loggers, metrics (metrics.go and the collaborators of the engine)\<close>

text \<open>
  Modelled from the spec: the declarations of \<open>LogRec\<close>, \<open>Logr\<close>, \<open>Formatter\<close> and
  \<open>Filter\<close> are not among the sources. A record "exposes a back-reference to its
  originating logger for error reporting, and may carry a flush marker": \<open>logr\<close> is the
  identity of the \<open>Logr\<close> that \<open>rec.Logger().Logr()\<close> returns, \<open>flush_marker\<close> the
  completion channel of a flush request (nil for an ordinary record), \<open>shown\<close> what
  \<open>%v\<close> prints for it.
\<close>

record LogRec =
  logr :: nat
  flush_marker :: "nat option"
  shown :: string

datatype Target = Target (typeName: string)

type_synonym Counter = nat
type_synonym Gauge = nat

text \<open>
  A \<open>Counter\<close> or \<open>Gauge\<close> is an object of the collector, known by its identity; the
  store \<open>counters\<close> of the system holds how many \<open>Inc\<close> calls each counter has
  received, \<open>gauges\<close> the value last \<open>Set\<close>. A factory may hand out nil.
\<close>

record MetricsCollector =
  QueueSizeGauge :: "string \<Rightarrow> Gauge option"
  LoggedCounter :: "string \<Rightarrow> Counter option"
  ErrorCounter :: "string \<Rightarrow> Counter option"
  DroppedCounter :: "string \<Rightarrow> Counter option"
  BlockedCounter :: "string \<Rightarrow> Counter option"

text \<open>
  Of \<open>Logr\<close>, the fields the sources use: the overflow hook \<open>OnTargetQueueFull\<close>, the
  metrics fields that \<open>SetMetricsCollector\<close> sets (prefixed \<open>Logr_\<close>: \<open>Basic\<close> has
  fields of the same names), the targets added so far, and \<open>reported\<close>, the errors
  that \<open>ReportError\<close> was given, oldest first.
\<close>

record Logr =
  OnTargetQueueFull :: "(Target option \<Rightarrow> LogRec \<Rightarrow> nat \<Rightarrow> bool) option"
  reported :: "string list"
  targets :: "Target list"
  Logr_metrics :: "MetricsCollector option"
  Logr_queueSizeGauge :: "Gauge option"
  Logr_loggedCounter :: "Counter option"
  Logr_errorCounter :: "Counter option"

text \<open>
  Modelled from the spec: \<open>HasTargets\<close> is not among the sources;
  \<open>SetMetricsCollector\<close> "must be called before any target is added".
\<close>

definition HasTargets :: "Logr \<Rightarrow> bool" where
  "HasTargets lgr = (targets lgr \<noteq> [])"

text \<open>
  \<open>SetMetricsCollector\<close> returns the error (nil is \<open>None\<close>) and the logger as the call
  leaves it.
\<close>

definition SetMetricsCollector :: "MetricsCollector option \<Rightarrow> Logr \<Rightarrow> string option \<times> Logr" where
  "SetMetricsCollector collector lgr =
     (if HasTargets lgr then
        (Some ''Logr.SetMetricsCollector must be called before any targets are added.'', lgr)
      else
        (case collector of
           None \<Rightarrow> (Some ''collector cannot be nil'', lgr)
         | Some c \<Rightarrow>
             (None,
              lgr\<lparr>Logr_metrics := Some c,
                  Logr_queueSizeGauge := QueueSizeGauge c ''_logr'',
                  Logr_loggedCounter := LoggedCounter c ''_logr'',
                  Logr_errorCounter := ErrorCounter c ''_logr''\<rparr>)))"

section \<open>The target engine \<open>Basic\<close>\<close>

datatype Filter = Std StdFilter | CustomFilter "Level \<Rightarrow> bool" "Level \<Rightarrow> bool"

fun Filter_IsEnabled :: "Filter \<Rightarrow> Level \<Rightarrow> bool" where
  "Filter_IsEnabled (Std lt) lvl = IsEnabled lt lvl"
| "Filter_IsEnabled (CustomFilter en st) lvl = en lvl"

fun Filter_IsStacktraceEnabled :: "Filter \<Rightarrow> Level \<Rightarrow> bool" where
  "Filter_IsStacktraceEnabled (Std lt) lvl = IsStacktraceEnabled lt lvl"
| "Filter_IsStacktraceEnabled (CustomFilter en st) lvl = st lvl"

datatype Formatter = DefaultFormatter | CustomFormatter string

text \<open>
  What a call of \<open>RecordWriter.Write\<close> does: return nil, return an error, or panic.
\<close>

datatype write_result = WriteOk | WriteErr string | WritePanic string

type_synonym RecordWriter = "LogRec \<Rightarrow> write_result"

text \<open>
  The struct \<open>Basic\<close>. The fields \<open>filter\<close>, \<open>in\<close>, \<open>done\<close> and \<open>w\<close> are named
  \<open>filterF\<close>, \<open>in_ch\<close>, \<open>done_ch\<close> and \<open>b_w\<close>. Interface and channel fields are nil
  until \<open>Start\<close> or \<open>Metrics\<close> sets them. \<open>metricsUpdateFreqMillis\<close> is an \<open>int64\<close>.
\<close>

record Basic =
  target :: "Target option"
  name :: string
  filterF :: "Filter option"
  formatter :: "Formatter option"
  in_ch :: "LogRec chan option"
  done_ch :: "unit chan option"
  b_w :: "RecordWriter option"
  queueSizeGauge :: "Gauge option"
  loggedCounter :: "Counter option"
  errorCounter :: "Counter option"
  droppedCounter :: "Counter option"
  blockedCounter :: "Counter option"
  metricsUpdateFreqMillis :: "64 word"

text \<open>The zero value of the struct: a target "constructed inert".\<close>

definition Basic_zero :: Basic where
  "Basic_zero =
     \<lparr>target = None, name = [], filterF = None, formatter = None, in_ch = None,
      done_ch = None, b_w = None, queueSizeGauge = None, loggedCounter = None,
      errorCounter = None, droppedCounter = None, blockedCounter = None,
      metricsUpdateFreqMillis = 0\<rparr>"

text \<open>
  The engine and what it acts on: the loggers by identity, the collector's counters and
  gauges, the records handed to the writer (in order), the lines printed to the
  diagnostic stream, the flush completion channels signalled (in order), and
  \<open>in_hand\<close>, the record that a send has handed to the parked worker and that the
  worker, woken, has not dealt with yet.
\<close>

record System =
  tgt :: Basic
  logrs :: "nat \<Rightarrow> Logr"
  counters :: "Counter \<Rightarrow> nat"
  gauges :: "Gauge \<Rightarrow> nat"
  written :: "LogRec list"
  stderr :: "string list"
  flushed :: "nat list"
  in_hand :: "LogRec option"

text \<open>How a call ends: it returns a value, it is parked at a blocking \<open>select\<close>, or it panics.\<close>

datatype 'a call = Returns 'a | Waits | Panics string

text \<open>\<open>c.Inc()\<close> under the guard \<open>if c != nil\<close> that every use in the engine has.\<close>

definition Counter_Inc :: "Counter option \<Rightarrow> System \<Rightarrow> System" where
  "Counter_Inc h s =
     (case h of
        None \<Rightarrow> s
      | Some c \<Rightarrow> s\<lparr>counters := (counters s)(c := counters s c + 1)\<rparr>)"

text \<open>
  Modelled from the spec: \<open>ReportError\<close> is not among the sources; it is the "error
  reporting sink" of the owning logger, here the list \<open>reported\<close> of that logger.
\<close>

definition ReportError :: "nat \<Rightarrow> string \<Rightarrow> System \<Rightarrow> System" where
  "ReportError l err s =
     s\<lparr>logrs := (logrs s)(l := (logrs s l)\<lparr>reported := reported (logrs s l) @ [err]\<rparr>)\<rparr>"

subsection \<open>Naming, level query, accessors\<close>

definition SetName :: "string \<Rightarrow> Basic \<Rightarrow> Basic" where
  "SetName n b = b\<lparr>name := n\<rparr>"

text \<open>\<open>String\<close>: the name, or what \<open>%T\<close> prints for the target (\<open><nil>\<close> for nil).\<close>

definition String :: "Basic \<Rightarrow> string" where
  "String b =
     (if name b \<noteq> [] then name b
      else (case target b of None \<Rightarrow> ''<nil>'' | Some t \<Rightarrow> typeName t))"

text \<open>A method call on a nil interface value panics.\<close>

definition nil_dereference :: string where
  "nil_dereference = ''runtime error: invalid memory address or nil pointer dereference''"

definition IsLevelEnabled :: "Level \<Rightarrow> Basic \<Rightarrow> (bool \<times> bool) call" where
  "IsLevelEnabled lvl b =
     (case filterF b of
        None \<Rightarrow> Panics nil_dereference
      | Some f \<Rightarrow> Returns (Filter_IsEnabled f lvl, Filter_IsStacktraceEnabled f lvl))"

subsection \<open>Start and Metrics\<close>

datatype task = Worker | MetricsUpdater

text \<open>
  \<open>Start\<close> returns the goroutines it launches. \<open>StdFilter{Lvl: Fatal}\<close> leaves the
  stacktrace threshold at the zero value of \<open>Level\<close>. \<open>make\<close> panics on a negative
  size, after the first three fields have been assigned.
\<close>

definition Start ::
  "Target option \<Rightarrow> RecordWriter option \<Rightarrow> Filter option \<Rightarrow> Formatter option \<Rightarrow> int \<Rightarrow>
   Basic \<Rightarrow> task list call \<times> Basic" where
  "Start tg rw fl fm maxQueued b =
     (let fl' = (case fl of None \<Rightarrow> Std \<lparr>Lvl = Fatal, StacktraceLvl = Level_zero\<rparr> | Some f \<Rightarrow> f);
          fm' = (case fm of None \<Rightarrow> DefaultFormatter | Some f \<Rightarrow> f);
          b1 = b\<lparr>target := tg, filterF := Some fl', formatter := Some fm'\<rparr>
      in if maxQueued < 0 then (Panics ''makechan: size out of range'', b1)
         else
           (let b2 = b1\<lparr>in_ch := Some (make_chan (nat maxQueued)),
                       done_ch := Some (make_chan 1),
                       b_w := rw\<rparr>
            in (Returns (Worker # (if queueSizeGauge b2 \<noteq> None then [MetricsUpdater] else [])),
                b2)))"

definition Metrics :: "MetricsCollector option \<Rightarrow> 64 word \<Rightarrow> Basic \<Rightarrow> unit call \<times> Basic" where
  "Metrics collector updateFreqMillis b =
     (let b1 = b\<lparr>metricsUpdateFreqMillis := updateFreqMillis\<rparr>;
          nm = String b1
      in case collector of
           None \<Rightarrow> (Panics nil_dereference, b1)
         | Some c \<Rightarrow>
             (Returns (),
              b1\<lparr>queueSizeGauge := QueueSizeGauge c nm,
                 loggedCounter := LoggedCounter c nm,
                 errorCounter := ErrorCounter c nm,
                 droppedCounter := DroppedCounter c nm,
                 blockedCounter := BlockedCounter c nm\<rparr>))"

subsection \<open>Log\<close>

text \<open>
  \<open>Log\<close> up to its second \<open>select\<close>: the non-blocking send, into the buffer or
  into the hands of the parked worker, then the overflow hook (\<open>&&\<close> does not call a
  nil hook) and the dropped or blocked counter. \<open>Waits\<close> says the caller is parked at
  the second \<open>select\<close>, which \<open>Log_select\<close> resolves.
\<close>

definition Log :: "LogRec \<Rightarrow> System \<Rightarrow> unit call \<times> System" where
  "Log rec s =
     (let b = tgt s; lgr = logrs s (logr rec) in
      case chan_send (in_ch b) rec of
        Sent c \<Rightarrow> (Returns (), s\<lparr>tgt := b\<lparr>in_ch := Some c\<rparr>\<rparr>)
      | HandedOver c \<Rightarrow> (Returns (), s\<lparr>tgt := b\<lparr>in_ch := Some c\<rparr>, in_hand := Some rec\<rparr>)
      | SendPanic \<Rightarrow> (Panics ''send on closed channel'', s)
      | SendNotReady \<Rightarrow>
          (if (case OnTargetQueueFull lgr of
                 None \<Rightarrow> False
               | Some handler \<Rightarrow> handler (target b) rec (chan_cap (in_ch b)))
           then (Returns (), Counter_Inc (droppedCounter b) s)
           else (Waits, Counter_Inc (blockedCounter b) s)))"

text \<open>
  The second \<open>select\<close>, by the case that fires: the timer of \<open>lgr.enqueueTimeout()\<close>,
  or the send, which is ready only once the buffer has room or the worker has parked.
\<close>

datatype select_event = TimerFired | SendReady

definition enqueue_timeout_error :: "LogRec \<Rightarrow> string" where
  "enqueue_timeout_error rec = ''target enqueue timeout for log rec ['' @ shown rec @ '']''"

definition Log_select :: "select_event \<Rightarrow> LogRec \<Rightarrow> System \<Rightarrow> unit call \<times> System" where
  "Log_select ev rec s =
     (case ev of
        TimerFired \<Rightarrow> (Returns (), ReportError (logr rec) (enqueue_timeout_error rec) s)
      | SendReady \<Rightarrow>
          (case chan_send (in_ch (tgt s)) rec of
             Sent c \<Rightarrow> (Returns (), s\<lparr>tgt := (tgt s)\<lparr>in_ch := Some c\<rparr>\<rparr>)
           | HandedOver c \<Rightarrow>
               (Returns (), s\<lparr>tgt := (tgt s)\<lparr>in_ch := Some c\<rparr>, in_hand := Some rec\<rparr>)
           | SendPanic \<Rightarrow> (Panics ''send on closed channel'', s)
           | SendNotReady \<Rightarrow> (Waits, s)))"

subsection \<open>Shutdown\<close>

text \<open>
  \<open>Shutdown\<close> closes the queue and parks at its \<open>select\<close>; \<open>env\<close> is what the other
  goroutines (the worker) do to the system until a case fires. The case of \<open>b.done\<close>
  can fire only once that channel is closed. The value returned is the \<open>error\<close>, nil
  being \<open>None\<close>.
\<close>

datatype shutdown_event = CtxDone | WorkerDone

definition done_closed :: "Basic \<Rightarrow> bool" where
  "done_closed b = (case done_ch b of None \<Rightarrow> False | Some d \<Rightarrow> is_closed d)"

definition Shutdown ::
  "(System \<Rightarrow> System) \<Rightarrow> shutdown_event \<Rightarrow> System \<Rightarrow> string option call \<times> System" where
  "Shutdown env ev s =
     (case chan_close (in_ch (tgt s)) of
        None \<Rightarrow> (Panics (chan_close_panic (in_ch (tgt s))), s)
      | Some c \<Rightarrow>
          (let s1 = env (s\<lparr>tgt := (tgt s)\<lparr>in_ch := Some c\<rparr>\<rparr>) in
           case ev of
             CtxDone \<Rightarrow> (Returns None, s1)
           | WorkerDone \<Rightarrow> if done_closed (tgt s1) then (Returns None, s1) else (Waits, s1)))"

subsection \<open>The worker: \<open>start\<close> and \<open>flush\<close>\<close>

text \<open>
  \<open>b.w.Write(rec)\<close>: a nil writer panics before any write; otherwise the record
  reaches the writer, whatever the writer then does.
\<close>

definition Write :: "LogRec \<Rightarrow> System \<Rightarrow> write_result \<times> System" where
  "Write rec s =
     (case b_w (tgt s) of
        None \<Rightarrow> (WritePanic nil_dereference, s)
      | Some wr \<Rightarrow> (wr rec, s\<lparr>written := written s @ [rec]\<rparr>))"

text \<open>
  \<open>flush\<close> reads without blocking until the queue has nothing ready, then signals
  \<open>done\<close>. It returns the value of a panic that left it, if any: of the writer, or of
  \<open>rec.flush\<close> on the nil record that a closed and empty queue yields.
\<close>

function flush :: "nat \<Rightarrow> System \<Rightarrow> string option \<times> System" where
  "flush dn s =
     (case chan_recv (in_ch (tgt s)) of
        RecvNotReady \<Rightarrow> (None, s\<lparr>flushed := flushed s @ [dn]\<rparr>)
      | Received None c \<Rightarrow> (Some nil_dereference, s)
      | Received (Some rec) c \<Rightarrow>
          (let s1 = s\<lparr>tgt := (tgt s)\<lparr>in_ch := Some c\<rparr>\<rparr> in
           if flush_marker rec = None then
             (case fst (Write rec s1) of
                WriteOk \<Rightarrow> flush dn (snd (Write rec s1))
              | WriteErr err \<Rightarrow>
                  flush dn
                    (ReportError (logr rec) err
                       (Counter_Inc (errorCounter (tgt s1)) (snd (Write rec s1))))
              | WritePanic r \<Rightarrow> (Some r, snd (Write rec s1)))
           else flush dn s1))"
  by pat_completeness auto

text \<open>Termination of \<open>flush\<close>: every round takes one record off the queue.\<close>

lemma Write_tgt [simp]: "tgt (snd (Write rec s)) = tgt s"
  by (simp add: Write_def split: option.splits)

lemma Counter_Inc_tgt [simp]: "tgt (Counter_Inc h s) = tgt s"
  by (simp add: Counter_Inc_def split: option.splits)

lemma ReportError_tgt [simp]: "tgt (ReportError l e s) = tgt s"
  by (simp add: ReportError_def)

lemma chan_recv_len:
  "chan_recv ch = Received (Some x) c \<Longrightarrow> chan_len (Some c) < chan_len ch"
  by (auto simp: chan_recv_def chan_len_def split: option.splits list.splits if_splits)

termination flush
  by (relation "measure (\<lambda>(dn, s). chan_len (in_ch (tgt s)))") (auto dest: chan_recv_len)

declare flush.simps [simp del]

lemma flush_not_ready:
  "chan_recv (in_ch (tgt s)) = RecvNotReady \<Longrightarrow>
   flush dn s = (None, s\<lparr>flushed := flushed s @ [dn]\<rparr>)"
  by (subst flush.simps) simp

lemma flush_nil:
  "chan_recv (in_ch (tgt s)) = Received None c \<Longrightarrow> flush dn s = (Some nil_dereference, s)"
  by (subst flush.simps) simp

lemma flush_redundant:
  "chan_recv (in_ch (tgt s)) = Received (Some r) c \<Longrightarrow> flush_marker r = Some d \<Longrightarrow>
   flush dn s = flush dn (s\<lparr>tgt := (tgt s)\<lparr>in_ch := Some c\<rparr>\<rparr>)"
  by (subst flush.simps) (simp add: Let_def)

lemma flush_ok:
  "chan_recv (in_ch (tgt s)) = Received (Some r) c \<Longrightarrow> flush_marker r = None \<Longrightarrow>
   fst (Write r (s\<lparr>tgt := (tgt s)\<lparr>in_ch := Some c\<rparr>\<rparr>)) = WriteOk \<Longrightarrow>
   flush dn s = flush dn (snd (Write r (s\<lparr>tgt := (tgt s)\<lparr>in_ch := Some c\<rparr>\<rparr>)))"
  by (subst flush.simps) (simp add: Let_def)

lemma flush_err:
  "chan_recv (in_ch (tgt s)) = Received (Some r) c \<Longrightarrow> flush_marker r = None \<Longrightarrow>
   fst (Write r (s\<lparr>tgt := (tgt s)\<lparr>in_ch := Some c\<rparr>\<rparr>)) = WriteErr e \<Longrightarrow>
   flush dn s =
     flush dn
       (ReportError (logr r) e
          (Counter_Inc (errorCounter (tgt s))
             (snd (Write r (s\<lparr>tgt := (tgt s)\<lparr>in_ch := Some c\<rparr>\<rparr>)))))"
  by (subst flush.simps) (simp add: Let_def)

lemma flush_panic:
  "chan_recv (in_ch (tgt s)) = Received (Some r) c \<Longrightarrow> flush_marker r = None \<Longrightarrow>
   fst (Write r (s\<lparr>tgt := (tgt s)\<lparr>in_ch := Some c\<rparr>\<rparr>)) = WritePanic p \<Longrightarrow>
   flush dn s = (Some p, snd (Write r (s\<lparr>tgt := (tgt s)\<lparr>in_ch := Some c\<rparr>\<rparr>)))"
  by (subst flush.simps) (simp add: Let_def)

lemma flush_len: "chan_len (in_ch (tgt (snd (flush dn s)))) \<le> chan_len (in_ch (tgt s))"
proof (induction dn s rule: flush.induct)
  case (1 dn s)
  show ?case
  proof (cases "chan_recv (in_ch (tgt s))")
    case RecvNotReady
    then show ?thesis by (simp add: flush_not_ready)
  next
    case (Received x c)
    show ?thesis
    proof (cases x)
      case None
      with Received show ?thesis by (simp add: flush_nil)
    next
      case (Some r)
      note rcv = Received [unfolded Some]
      note len = chan_recv_len [OF rcv]
      let ?s1 = "s\<lparr>tgt := (tgt s)\<lparr>in_ch := Some c\<rparr>\<rparr>"
      show ?thesis
      proof (cases "flush_marker r")
        case (Some d)
        then have "flush_marker r \<noteq> None" by simp
        from "1.IH"(3) [OF Received \<open>x = Some r\<close> refl this] len
        show ?thesis by (simp add: flush_redundant [OF rcv Some])
      next
        case None
        show ?thesis
        proof (cases "fst (Write r ?s1)")
          case WriteOk
          from "1.IH"(1) [OF Received Some refl None WriteOk] len
          show ?thesis by (simp add: flush_ok [OF rcv None WriteOk])
        next
          case (WriteErr e)
          from "1.IH"(2) [OF Received Some refl None WriteErr] len
          show ?thesis by (simp add: flush_err [OF rcv None WriteErr])
        next
          case (WritePanic p)
          with len show ?thesis by (simp add: flush_panic [OF rcv None WritePanic])
        qed
      qed
    qed
  qed
qed

text \<open>
  \<open>start\<close>, the worker. \<open>range b.in\<close> parks on an empty open queue (and on a nil one),
  ends on a closed and empty one, and \<open>close(b.done)\<close> follows. A panic in the loop is
  recovered: a line goes to the diagnostic stream and \<open>go b.start()\<close> resumes on the same
  queue, here the recursive call. \<open>WorkerRespawns\<close> stands for the one panic that recurs
  for ever, \<open>close\<close> of a \<open>done\<close> that is nil or closed already.
\<close>

datatype worker_status = WorkerParked | WorkerExited | WorkerRespawns

definition recovered :: "string \<Rightarrow> System \<Rightarrow> System" where
  "recovered r s = s\<lparr>stderr := stderr s @ [''Basic.start --  '' @ r]\<rparr>"

lemma recovered_tgt [simp]: "tgt (recovered r s) = tgt s"
  by (simp add: recovered_def)

function start :: "System \<Rightarrow> worker_status \<times> System" where
  "start s =
     (case chan_recv (in_ch (tgt s)) of
        RecvNotReady \<Rightarrow>
          (WorkerParked, s\<lparr>tgt := (tgt s)\<lparr>in_ch := chan_park (in_ch (tgt s))\<rparr>\<rparr>)
      | Received None c \<Rightarrow>
          (case chan_close (done_ch (tgt s)) of
             Some d \<Rightarrow> (WorkerExited, s\<lparr>tgt := (tgt s)\<lparr>done_ch := Some d\<rparr>\<rparr>)
           | None \<Rightarrow> (WorkerRespawns, recovered (chan_close_panic (done_ch (tgt s))) s))
      | Received (Some rec) c \<Rightarrow>
          (let s1 = s\<lparr>tgt := (tgt s)\<lparr>in_ch := Some c\<rparr>\<rparr> in
           case flush_marker rec of
             Some dn \<Rightarrow>
               (case fst (flush dn s1) of
                  None \<Rightarrow> start (snd (flush dn s1))
                | Some r \<Rightarrow> start (recovered r (snd (flush dn s1))))
           | None \<Rightarrow>
               (case fst (Write rec s1) of
                  WriteErr err \<Rightarrow>
                    start
                      (ReportError (logr rec) err
                         (Counter_Inc (errorCounter (tgt s1)) (snd (Write rec s1))))
                | WriteOk \<Rightarrow> start (Counter_Inc (loggedCounter (tgt s1)) (snd (Write rec s1)))
                | WritePanic r \<Rightarrow> start (recovered r (snd (Write rec s1))))))"
  by pat_completeness auto

termination start
proof (relation "measure (\<lambda>s. chan_len (in_ch (tgt s)))")
  fix s :: System and x c rec s1 dn
  assume a: "chan_recv (in_ch (tgt s)) = Received x c" "x = Some rec"
    "s1 = s\<lparr>tgt := (tgt s)\<lparr>in_ch := Some c\<rparr>\<rparr>"
  have "chan_len (in_ch (tgt (snd (flush dn s1)))) \<le> chan_len (in_ch (tgt s1))"
    by (rule flush_len)
  with a chan_recv_len [of "in_ch (tgt s)" rec c]
  show "(snd (flush dn s1), s) \<in> measure (\<lambda>s. chan_len (in_ch (tgt s)))" by simp
  fix r
  from a chan_recv_len [of "in_ch (tgt s)" rec c] flush_len [of dn s1]
  show "(recovered r (snd (flush dn s1)), s) \<in> measure (\<lambda>s. chan_len (in_ch (tgt s)))" by simp
qed (auto dest: chan_recv_len)

text \<open>
  The worker woken from its park. When a send has handed it a record, the blocked
  receive of \<open>range b.in\<close> returns that record, and the loop goes on as it does with
  the record at the head of the queue. Woken by \<open>close\<close>, it has nothing in hand and
  the receive is tried again.
\<close>

definition start_resume :: "System \<Rightarrow> worker_status \<times> System" where
  "start_resume s =
     (case (in_hand s, in_ch (tgt s)) of
        (Some rec, Some c) \<Rightarrow>
          start (s\<lparr>tgt := (tgt s)\<lparr>in_ch := Some (c\<lparr>buf := rec # buf c\<rparr>)\<rparr>, in_hand := None\<rparr>)
      | _ \<Rightarrow> start s)"

subsection \<open>The metrics sampler\<close>

text \<open>
  \<open>updateFreq\<close> is the local variable of \<open>startMetricsUpdater\<close> when the \<open>select\<close> is
  reached, an \<open>int64\<close> compared as a signed number. \<open>tickDuration\<close> is the
  \<open>time.Duration\<close> handed to \<open>time.After\<close>: a count of nanoseconds in an \<open>int64\<close>,
  \<open>time.Millisecond\<close> being 1000000, and the product wraps around.
\<close>

definition DefMetricsUpdateFreqMillis :: "64 word" where
  "DefMetricsUpdateFreqMillis = 15000"

definition Millisecond :: "64 word" where
  "Millisecond = 1000000"

definition updateFreq :: "Basic \<Rightarrow> 64 word" where
  "updateFreq b =
     (let u0 = metricsUpdateFreqMillis b;
          u1 = (if u0 = 0 then DefMetricsUpdateFreqMillis else u0)
      in if u1 <s 250 then 250 else u1)"

definition tickDuration :: "Basic \<Rightarrow> 64 word" where
  "tickDuration b = updateFreq b * Millisecond"

text \<open>
  One round of the sampler's loop, by the case of its \<open>select\<close> that fires: \<open>b.done\<close>
  (ready once closed) ends the sampler, \<open>True\<close>; the timer sets the gauge to the
  length of the queue.
\<close>

datatype updater_event = DoneSignal | Tick

definition startMetricsUpdater :: "updater_event \<Rightarrow> System \<Rightarrow> bool \<times> System" where
  "startMetricsUpdater ev s =
     (case ev of
        DoneSignal \<Rightarrow> (done_closed (tgt s), s)
      | Tick \<Rightarrow>
          (False,
           case queueSizeGauge (tgt s) of
             None \<Rightarrow> s
           | Some g \<Rightarrow> s\<lparr>gauges := (gauges s)(g := chan_len (in_ch (tgt s)))\<rparr>))"

section \<open>Example inputs\<close>

text \<open>
  Concrete values on which the properties below are evaluated: a level of rank 7, beyond
  the named ones, and a filter that lets it through; a collector; a logger without an
  overflow hook; a writer that fails on the record \<open>bad\<close>; a target started with a
  queue of capacity 1 after \<open>Metrics\<close>, and a system around it with a given queue.
\<close>

definition example_level :: Level where
  "example_level = \<lparr>ID = 7, Name = ''audit'', DisplayName = ''AUD'', Color = Green, Stacktrace = False\<rparr>"

definition example_filter :: StdFilter where
  "example_filter = \<lparr>Lvl = example_level\<lparr>ID := 9\<rparr>, StacktraceLvl = Error\<rparr>"

definition example_collector :: MetricsCollector where
  "example_collector =
     \<lparr>QueueSizeGauge = (\<lambda>n. Some 0), LoggedCounter = (\<lambda>n. Some 1),
      ErrorCounter = (\<lambda>n. Some 2), DroppedCounter = (\<lambda>n. Some 3),
      BlockedCounter = (\<lambda>n. Some 4)\<rparr>"

definition example_logr :: Logr where
  "example_logr =
     \<lparr>OnTargetQueueFull = None, reported = [], targets = [], Logr_metrics = None,
      Logr_queueSizeGauge = None, Logr_loggedCounter = None, Logr_errorCounter = None\<rparr>"

definition drop_always :: "Target option \<Rightarrow> LogRec \<Rightarrow> nat \<Rightarrow> bool" where
  "drop_always t r n = True"

definition example_writer :: RecordWriter where
  "example_writer r = (if shown r = ''bad'' then WriteErr ''disk full'' else WriteOk)"

definition example_rec :: "string \<Rightarrow> LogRec" where
  "example_rec txt = \<lparr>logr = 0, flush_marker = None, shown = txt\<rparr>"

definition example_basic :: Basic where
  "example_basic =
     snd (Start (Some (Target ''*target.Writer'')) (Some example_writer) None None 1
            (snd (Metrics (Some example_collector) 0 Basic_zero)))"

definition example_system :: "Logr \<Rightarrow> LogRec list \<Rightarrow> System" where
  "example_system lgr q =
     \<lparr>tgt = example_basic\<lparr>in_ch := Some \<lparr>buf = q, capacity = 1, is_closed = False, parked = False\<rparr>\<rparr>,
      logrs = (\<lambda>l. lgr), counters = (\<lambda>c. 0), gauges = (\<lambda>g. 0),
      written = [], stderr = [], flushed = [], in_hand = None\<rparr>"

text \<open>The same system with an unbuffered queue (capacity 0) and the worker busy.\<close>

definition example_unbuffered :: System where
  "example_unbuffered =
     (example_system example_logr [])\<lparr>tgt := example_basic\<lparr>in_ch := Some (make_chan 0)\<rparr>\<rparr>"

section \<open>The loops, one round at a time\<close>

text \<open>
  The equations of \<open>start\<close> and \<open>flush\<close> by the item at the head of the queue, and
  what \<open>Inc\<close>, \<open>ReportError\<close> and \<open>Write\<close> leave alone.
\<close>

declare start.simps [simp del]

lemma chan_recv_head:
  "ch = Some c \<Longrightarrow> buf c = r # rest \<Longrightarrow> chan_recv ch = Received (Some r) (c\<lparr>buf := rest\<rparr>)"
  by (simp add: chan_recv_def)

lemma start_parked:
  "chan_recv (in_ch (tgt s)) = RecvNotReady \<Longrightarrow>
   start s = (WorkerParked, s\<lparr>tgt := (tgt s)\<lparr>in_ch := chan_park (in_ch (tgt s))\<rparr>\<rparr>)"
  by (subst start.simps) simp

lemma start_exit:
  "chan_recv (in_ch (tgt s)) = Received None c \<Longrightarrow>
   start s =
     (case chan_close (done_ch (tgt s)) of
        Some d \<Rightarrow> (WorkerExited, s\<lparr>tgt := (tgt s)\<lparr>done_ch := Some d\<rparr>\<rparr>)
      | None \<Rightarrow> (WorkerRespawns, recovered (chan_close_panic (done_ch (tgt s))) s))"
  by (subst start.simps) simp

lemma start_flush:
  "chan_recv (in_ch (tgt s)) = Received (Some r) c \<Longrightarrow> flush_marker r = Some dn \<Longrightarrow>
   start s =
     (case fst (flush dn (s\<lparr>tgt := (tgt s)\<lparr>in_ch := Some c\<rparr>\<rparr>)) of
        None \<Rightarrow> start (snd (flush dn (s\<lparr>tgt := (tgt s)\<lparr>in_ch := Some c\<rparr>\<rparr>)))
      | Some p \<Rightarrow> start (recovered p (snd (flush dn (s\<lparr>tgt := (tgt s)\<lparr>in_ch := Some c\<rparr>\<rparr>)))))"
  by (subst start.simps) (simp add: Let_def)

lemma start_ok:
  "chan_recv (in_ch (tgt s)) = Received (Some r) c \<Longrightarrow> flush_marker r = None \<Longrightarrow>
   fst (Write r (s\<lparr>tgt := (tgt s)\<lparr>in_ch := Some c\<rparr>\<rparr>)) = WriteOk \<Longrightarrow>
   start s =
     start (Counter_Inc (loggedCounter (tgt s))
              (snd (Write r (s\<lparr>tgt := (tgt s)\<lparr>in_ch := Some c\<rparr>\<rparr>))))"
  by (subst start.simps) (simp add: Let_def)

lemma start_err:
  "chan_recv (in_ch (tgt s)) = Received (Some r) c \<Longrightarrow> flush_marker r = None \<Longrightarrow>
   fst (Write r (s\<lparr>tgt := (tgt s)\<lparr>in_ch := Some c\<rparr>\<rparr>)) = WriteErr e \<Longrightarrow>
   start s =
     start (ReportError (logr r) e
              (Counter_Inc (errorCounter (tgt s))
                 (snd (Write r (s\<lparr>tgt := (tgt s)\<lparr>in_ch := Some c\<rparr>\<rparr>)))))"
  by (subst start.simps) (simp add: Let_def)

lemma start_panic:
  "chan_recv (in_ch (tgt s)) = Received (Some r) c \<Longrightarrow> flush_marker r = None \<Longrightarrow>
   fst (Write r (s\<lparr>tgt := (tgt s)\<lparr>in_ch := Some c\<rparr>\<rparr>)) = WritePanic p \<Longrightarrow>
   start s = start (recovered p (snd (Write r (s\<lparr>tgt := (tgt s)\<lparr>in_ch := Some c\<rparr>\<rparr>))))"
  by (subst start.simps) (simp add: Let_def)

lemma Counter_Inc_counters:
  "counters (Counter_Inc h s) k = (if h = Some k then counters s k + 1 else counters s k)"
  by (cases h) (auto simp: Counter_Inc_def)

lemma Counter_Inc_logrs [simp]: "logrs (Counter_Inc h s) = logrs s"
  by (simp add: Counter_Inc_def split: option.splits)

lemma flush_counters:
  "errorCounter (tgt s) \<noteq> Some k \<Longrightarrow> counters (snd (flush dn s)) k = counters s k"
proof (induction dn s rule: flush.induct)
  case (1 dn s)
  show ?case
  proof (cases "chan_recv (in_ch (tgt s))")
    case RecvNotReady
    then show ?thesis by (simp add: flush_not_ready)
  next
    case (Received x c)
    show ?thesis
    proof (cases x)
      case None
      with Received show ?thesis by (simp add: flush_nil)
    next
      case (Some r)
      note rcv = Received [unfolded Some]
      let ?s1 = "s\<lparr>tgt := (tgt s)\<lparr>in_ch := Some c\<rparr>\<rparr>"
      have wc: "counters (snd (Write r ?s1)) = counters s"
        by (simp add: Write_def split: option.splits)
      show ?thesis
      proof (cases "flush_marker r")
        case (Some d)
        then have "flush_marker r \<noteq> None" by simp
        from "1.IH"(3) [OF Received \<open>x = Some r\<close> refl this] "1.prems"
        show ?thesis by (simp add: flush_redundant [OF rcv Some])
      next
        case None
        show ?thesis
        proof (cases "fst (Write r ?s1)")
          case WriteOk
          from "1.IH"(1) [OF Received Some refl None WriteOk] "1.prems" wc
          show ?thesis by (simp add: flush_ok [OF rcv None WriteOk])
        next
          case (WriteErr e)
          from "1.IH"(2) [OF Received Some refl None WriteErr] "1.prems" wc
          show ?thesis
            by (simp add: flush_err [OF rcv None WriteErr] ReportError_def Counter_Inc_counters)
        next
          case (WritePanic p)
          with wc show ?thesis by (simp add: flush_panic [OF rcv None WritePanic])
        qed
      qed
    qed
  qed
qed

lemma enqueue_timeout_error_contains:
  "sublist ''target enqueue timeout'' (enqueue_timeout_error r)"
proof -
  have "prefix ''target enqueue timeout'' (enqueue_timeout_error r)"
    by (simp add: enqueue_timeout_error_def)
  then show ?thesis by (rule prefix_imp_sublist)
qed

lemma updateFreq_cases:
  "updateFreq b =
     (if 250 \<le>s metricsUpdateFreqMillis b then metricsUpdateFreqMillis b
      else if metricsUpdateFreqMillis b = 0 then 15000 else 250)"
  by (auto simp: updateFreq_def Let_def DefMetricsUpdateFreqMillis_def word_sless_alt word_sle_eq)

lemma sint_updateFreq:
  "sint (updateFreq b) =
     (if 250 \<le> sint (metricsUpdateFreqMillis b) then sint (metricsUpdateFreqMillis b)
      else if metricsUpdateFreqMillis b = 0 then 15000 else 250)"
  by (auto simp: updateFreq_cases word_sle_eq)

lemma sint_times_Millisecond:
  fixes u :: "64 word"
  assumes "0 \<le> sint u" "sint u \<le> 9223372036854"
  shows "sint (u * Millisecond) = sint u * 1000000"
proof -
  have "sint (u * Millisecond) = signed_take_bit 63 (sint u * sint Millisecond)"
    by (simp add: sint_word_ariths)
  also have "sint Millisecond = 1000000" by (simp add: Millisecond_def)
  also have "signed_take_bit 63 (sint u * 1000000) = sint u * 1000000"
    using assms by (intro signed_take_bit_int_eq_self) auto
  finally show ?thesis .
qed

lemma example_basic_eq:
  "example_basic =
     \<lparr>target = Some (Target ''*target.Writer''), name = [],
      filterF = Some (Std \<lparr>Lvl = Fatal, StacktraceLvl = Level_zero\<rparr>),
      formatter = Some DefaultFormatter,
      in_ch = Some \<lparr>buf = [], capacity = 1, is_closed = False, parked = False\<rparr>,
      done_ch = Some \<lparr>buf = [], capacity = 1, is_closed = False, parked = False\<rparr>,
      b_w = Some example_writer, queueSizeGauge = Some 0, loggedCounter = Some 1,
      errorCounter = Some 2, droppedCounter = Some 3, blockedCounter = Some 4,
      metricsUpdateFreqMillis = 0\<rparr>"
  by (simp add: example_basic_def Start_def Metrics_def Basic_zero_def Let_def make_chan_def
      example_collector_def String_def)

lemma example_system_simps:
  "tgt (example_system lgr q) = example_basic\<lparr>in_ch := Some \<lparr>buf = q, capacity = 1, is_closed = False, parked = False\<rparr>\<rparr>"
  "logrs (example_system lgr q) = (\<lambda>l. lgr)"
  "counters (example_system lgr q) = (\<lambda>c. 0)"
  "written (example_system lgr q) = []"
  "flushed (example_system lgr q) = []"
  "stderr (example_system lgr q) = []"
  by (simp_all add: example_system_def)

lemma start_example_empty:
  "in_ch (tgt s) = Some \<lparr>buf = [], capacity = n, is_closed = False, parked = False\<rparr> \<Longrightarrow>
   start s =
     (WorkerParked,
      s\<lparr>tgt := (tgt s)\<lparr>in_ch := Some \<lparr>buf = [], capacity = n, is_closed = False, parked = True\<rparr>\<rparr>\<rparr>)"
  by (simp add: start_parked chan_recv_def chan_park_def)

lemma flush_example_empty:
  "in_ch (tgt s) = Some \<lparr>buf = [], capacity = n, is_closed = False, parked = False\<rparr> \<Longrightarrow>
   flush dn s = (None, s\<lparr>flushed := flushed s @ [dn]\<rparr>)"
  by (rule flush_not_ready) (simp add: chan_recv_def)

section \<open>Properties of the standard filter\<close>

text \<open>
  Claim C4. For every severity \<open>s\<close> and every Std Filter with level threshold \<open>L\<close> and
  stacktrace threshold \<open>S\<close>: \<open>IsEnabled s\<close> is true exactly when
  \<open>rank s \<le> rank L\<close>, and \<open>IsStacktraceEnabled s\<close> exactly when \<open>rank s \<le> rank S\<close>.
  In particular, for \<open>L = Warn\<close> and \<open>S = Error\<close>: Error is enabled, Info is not,
  Error requires a stack trace, Warn does not.
\<close>

theorem C4_std_filter_thresholds:
  "IsEnabled \<lparr>Lvl = L, StacktraceLvl = S\<rparr> s = (ID s \<le> ID L)
   \<and> IsStacktraceEnabled \<lparr>Lvl = L, StacktraceLvl = S\<rparr> s = (ID s \<le> ID S)
   \<and> IsEnabled \<lparr>Lvl = Warn, StacktraceLvl = Error\<rparr> Error = True
   \<and> IsEnabled \<lparr>Lvl = Warn, StacktraceLvl = Error\<rparr> Info = False
   \<and> IsStacktraceEnabled \<lparr>Lvl = Warn, StacktraceLvl = Error\<rparr> Error = True
   \<and> IsStacktraceEnabled \<lparr>Lvl = Warn, StacktraceLvl = Error\<rparr> Warn = False"
  by (simp add: IsEnabled_def IsStacktraceEnabled_def named_levels)

text \<open>
  Claim C7. Enablement is monotone in the rank: for every Std Filter and all severities
  \<open>s1\<close>, \<open>s2\<close> with \<open>rank s1 < rank s2\<close>, if \<open>s2\<close> is enabled then so is \<open>s1\<close>.
\<close>

theorem C7_std_filter_monotone:
  "ID s1 < ID s2 \<Longrightarrow> IsEnabled lt s2 \<Longrightarrow> IsEnabled lt s1"
  by (simp add: IsEnabled_def)

theorem C7_std_filter_monotone_witness:
  "ID Error < ID Warn \<and> IsEnabled \<lparr>Lvl = Warn, StacktraceLvl = Error\<rparr> Warn
   \<and> IsEnabled \<lparr>Lvl = Warn, StacktraceLvl = Error\<rparr> Error"
  using C7_std_filter_monotone [of Error Warn "\<lparr>Lvl = Warn, StacktraceLvl = Error\<rparr>"]
  by (simp add: IsEnabled_def named_levels)

text \<open>
  Claim C10. For a severity whose rank is that of no named constant (Panic to Trace) and
  which is enabled under the Std Filter, \<open>GetEnabledLevel\<close> returns the input severity,
  changed at most in its stacktrace flag (set when the rank is within the stacktrace
  threshold, kept otherwise), together with \<open>true\<close>; enablement and stacktrace are the
  same two rank comparisons as for the named severities.
\<close>

theorem C10_unnamed_level:
  assumes "ID level \<notin> {ID Panic, ID Fatal, ID Error, ID Warn, ID Info, ID Debug, ID Trace}"
    and "IsEnabled lt level"
  shows "GetEnabledLevel lt level =
           (level\<lparr>Stacktrace := Stacktrace level \<or> IsStacktraceEnabled lt level\<rparr>, True)
         \<and> IsEnabled lt level = (ID level \<le> ID (Lvl lt))
         \<and> IsStacktraceEnabled lt level = (ID level \<le> ID (StacktraceLvl lt))
         \<and> snd (GetEnabledLevel lt level) = (ID level \<le> ID (Lvl lt))
         \<and> Stacktrace (fst (GetEnabledLevel lt level)) =
             (Stacktrace level \<or> ID level \<le> ID (StacktraceLvl lt))"
  using assms
  by (auto simp: GetEnabledLevel_def IsEnabled_def IsStacktraceEnabled_def Let_def)

theorem C10_unnamed_level_witness:
  "ID example_level \<notin> {ID Panic, ID Fatal, ID Error, ID Warn, ID Info, ID Debug, ID Trace}
   \<and> IsEnabled example_filter example_level
   \<and> GetEnabledLevel example_filter example_level = (example_level, True)
   \<and> IsStacktraceEnabled example_filter example_level = False"
  using C10_unnamed_level [of example_level example_filter]
  by (simp add: example_level_def example_filter_def IsEnabled_def IsStacktraceEnabled_def
      named_levels)

section \<open>Properties of the engine\<close>

text \<open>
  Claim C2 says that after \<open>Start\<close> with a nil filter only the severity of lowest rank
  is enabled. The fallback is \<open>StdFilter{Lvl: Fatal}\<close>: on a target started with a nil
  filter Fatal, of rank 1, is enabled although Panic has the lower rank 0.
\<close>

theorem C2_fallback_filter_counterexample:
  "IsLevelEnabled Fatal (snd (Start None None None None 10 Basic_zero)) = Returns (True, False)
   \<and> ID Panic < ID Fatal
   \<and> IsLevelEnabled Panic (snd (Start None None None None 10 Basic_zero)) = Returns (True, True)"
  by (simp add: IsLevelEnabled_def Start_def Basic_zero_def Let_def IsEnabled_def
      IsStacktraceEnabled_def named_levels Level_zero_def)

text \<open>
  Claim C2, as amended. \<open>Start\<close> with a nil filter installs the Std Filter with level
  threshold Fatal and the zero level as stacktrace threshold: a severity is enabled
  exactly when its rank is at most 1 (Panic and Fatal), and requires a stack trace
  exactly when its rank is 0. This holds also when \<open>Start\<close> panics on a negative queue
  size, the filter being assigned before.
\<close>

theorem C2_fallback_filter:
  "filterF (snd (Start tg rw None fm maxQueued b)) = Some (Std \<lparr>Lvl = Fatal, StacktraceLvl = Level_zero\<rparr>)
   \<and> IsLevelEnabled lvl (snd (Start tg rw None fm maxQueued b)) = Returns (ID lvl \<le> 1, ID lvl = 0)"
  by (simp add: IsLevelEnabled_def Start_def Let_def IsEnabled_def
      IsStacktraceEnabled_def named_levels Level_zero_def)

text \<open>
  Claim C9. \<open>SetMetricsCollector\<close> returns a non-nil error, and leaves the logger as it
  was, whenever the logger has targets or the collector is nil; otherwise it returns nil
  and stores the collector and the gauge and the two counters the collector hands out
  for \<open>_logr\<close>. It has no panicking branch: every input ends in one of the two returns.
\<close>

theorem C9_SetMetricsCollector:
  "(HasTargets lgr \<or> collector = None \<longrightarrow>
      fst (SetMetricsCollector collector lgr) \<noteq> None
      \<and> snd (SetMetricsCollector collector lgr) = lgr)
   \<and> (\<not> HasTargets lgr \<and> collector = Some c \<longrightarrow>
      SetMetricsCollector collector lgr =
        (None,
         lgr\<lparr>Logr_metrics := Some c,
             Logr_queueSizeGauge := QueueSizeGauge c ''_logr'',
             Logr_loggedCounter := LoggedCounter c ''_logr'',
             Logr_errorCounter := ErrorCounter c ''_logr''\<rparr>))
   \<and> (fst (SetMetricsCollector collector lgr) =
        (if HasTargets lgr
         then Some ''Logr.SetMetricsCollector must be called before any targets are added.''
         else if collector = None then Some ''collector cannot be nil'' else None))"
  by (auto simp: SetMetricsCollector_def split: option.splits)

theorem C9_SetMetricsCollector_witness:
  "\<not> HasTargets example_logr
   \<and> fst (SetMetricsCollector (Some example_collector) example_logr) = None
   \<and> Logr_errorCounter (snd (SetMetricsCollector (Some example_collector) example_logr)) = Some 2
   \<and> fst (SetMetricsCollector None example_logr) = Some ''collector cannot be nil''
   \<and> snd (SetMetricsCollector None example_logr) = example_logr
   \<and> HasTargets (example_logr\<lparr>targets := [Target ''*target.Writer'']\<rparr>)
   \<and> fst (SetMetricsCollector (Some example_collector)
             (example_logr\<lparr>targets := [Target ''*target.Writer'']\<rparr>)) \<noteq> None
   \<and> snd (SetMetricsCollector (Some example_collector)
             (example_logr\<lparr>targets := [Target ''*target.Writer'']\<rparr>))
       = example_logr\<lparr>targets := [Target ''*target.Writer'']\<rparr>"
  using C9_SetMetricsCollector [of example_logr "Some example_collector" example_collector]
    C9_SetMetricsCollector [of example_logr None example_collector]
    C9_SetMetricsCollector [of "example_logr\<lparr>targets := [Target ''*target.Writer'']\<rparr>"
      "Some example_collector" example_collector]
  by (simp add: HasTargets_def example_logr_def example_collector_def)

text \<open>
  Claim C3 says that \<open>Shutdown\<close> returns a non-nil timeout signal when the deadline
  elapses first. On a started target with one record queued and the worker idle, the case
  \<open>ctx.Done()\<close> fires and \<open>Shutdown\<close> returns nil.
\<close>

theorem C3_Shutdown_counterexample:
  "fst (Shutdown (\<lambda>s. s) CtxDone (example_system example_logr [example_rec ''a''])) = Returns None"
  by (simp add: Shutdown_def example_system_def chan_close_def)

text \<open>
  Claim C3, as amended. \<open>Shutdown\<close> never returns a non-nil error: on a started target
  that is not shut down yet it returns nil when the deadline elapses first, whatever the
  worker has done by then, and it returns nil when the worker has drained the queue and
  closed \<open>done\<close>. The deadline shows only in records left in the queue.
\<close>

theorem C3_Shutdown_returns_nil:
  "(\<forall>e. fst (Shutdown env ev s) \<noteq> Returns (Some e))
   \<and> (chan_close (in_ch (tgt s)) = Some c \<longrightarrow>
        fst (Shutdown env CtxDone s) = Returns None
        \<and> (done_closed (tgt (env (s\<lparr>tgt := (tgt s)\<lparr>in_ch := Some c\<rparr>\<rparr>))) \<longrightarrow>
             fst (Shutdown env WorkerDone s) = Returns None))"
  by (auto simp: Shutdown_def Let_def split: option.splits shutdown_event.splits)

theorem C3_Shutdown_returns_nil_witness:
  "chan_close (in_ch (tgt (example_system example_logr [example_rec ''good''])))
     = Some \<lparr>buf = [example_rec ''good''], capacity = 1, is_closed = True, parked = False\<rparr>
   \<and> fst (Shutdown (\<lambda>s. s) CtxDone (example_system example_logr [example_rec ''good'']))
       = Returns None
   \<and> fst (Shutdown (\<lambda>s. snd (start s)) WorkerDone
             (example_system example_logr [example_rec ''good''])) = Returns None"
proof -
  let ?S = "example_system example_logr [example_rec ''good'']"
  let ?c = "\<lparr>buf = [example_rec ''good''], capacity = 1, is_closed = True, parked = False\<rparr>"
  let ?S1 = "?S\<lparr>tgt := (tgt ?S)\<lparr>in_ch := Some ?c\<rparr>\<rparr>"
  have cl: "chan_close (in_ch (tgt ?S)) = Some ?c"
    by (simp add: example_system_simps chan_close_def)
  have rcv: "chan_recv (in_ch (tgt ?S1)) = Received (Some (example_rec ''good'')) (?c\<lparr>buf := []\<rparr>)"
    by (simp add: chan_recv_def example_system_simps)
  have ord: "flush_marker (example_rec ''good'') = None"
    by (simp add: example_rec_def)
  have wr: "fst (Write (example_rec ''good'') (?S1\<lparr>tgt := (tgt ?S1)\<lparr>in_ch := Some (?c\<lparr>buf := []\<rparr>)\<rparr>\<rparr>))
      = WriteOk"
    by (simp add: Write_def example_system_simps example_basic_eq example_writer_def
        example_rec_def)
  note st = start_ok [OF rcv ord wr]
  have dn: "done_closed (tgt (snd (start ?S1)))"
    unfolding st
    by (subst start_exit [where c = "?c\<lparr>buf := []\<rparr>"])
      (simp_all add: chan_recv_def chan_close_def done_closed_def example_system_simps
        example_basic_eq Write_def)
  show ?thesis
    using C3_Shutdown_returns_nil [where s = ?S and c = ?c and env = "\<lambda>s. s" and ev = CtxDone]
      C3_Shutdown_returns_nil [where s = ?S and c = ?c and env = "\<lambda>s. snd (start s)"
        and ev = WorkerDone] cl dn
    by simp
qed

text \<open>
  Claim C5. The worker takes an ordinary record \<open>r\<close> off the head of the queue and
  hands it to the writer once. If the writer returns an error \<open>e\<close>, the error counter
  receives one \<open>Inc\<close> (a counter is incremented by exactly one when the handle is
  attached, and no other counter changes), \<open>e\<close> is reported to the logger that owns
  \<open>r\<close>, and the worker goes on with the rest of the queue: \<open>r\<close> is not put back. If
  the writer returns nil, the logged counter receives one \<open>Inc\<close> and nothing is
  reported.
\<close>

theorem C5_worker_write:
  assumes q: "in_ch (tgt s) = Some c" "buf c = r # rest"
    and ordinary: "flush_marker r = None"
    and wr: "b_w (tgt s) = Some wr"
  defines "s1 \<equiv> s\<lparr>tgt := (tgt s)\<lparr>in_ch := Some (c\<lparr>buf := rest\<rparr>)\<rparr>, written := written s @ [r]\<rparr>"
  shows "(wr r = WriteErr e \<longrightarrow>
            start s = start (ReportError (logr r) e (Counter_Inc (errorCounter (tgt s)) s1))
            \<and> (\<forall>k. counters (ReportError (logr r) e (Counter_Inc (errorCounter (tgt s)) s1)) k =
                  (if errorCounter (tgt s) = Some k then counters s k + 1 else counters s k))
            \<and> reported (logrs (ReportError (logr r) e (Counter_Inc (errorCounter (tgt s)) s1)) (logr r))
                = reported (logrs s (logr r)) @ [e]
            \<and> in_ch (tgt (ReportError (logr r) e (Counter_Inc (errorCounter (tgt s)) s1)))
                = Some (c\<lparr>buf := rest\<rparr>)
            \<and> written (ReportError (logr r) e (Counter_Inc (errorCounter (tgt s)) s1))
                = written s @ [r])
       \<and> (wr r = WriteOk \<longrightarrow>
            start s = start (Counter_Inc (loggedCounter (tgt s)) s1)
            \<and> (\<forall>k. counters (Counter_Inc (loggedCounter (tgt s)) s1) k =
                  (if loggedCounter (tgt s) = Some k then counters s k + 1 else counters s k))
            \<and> logrs (Counter_Inc (loggedCounter (tgt s)) s1) = logrs s)"
proof -
  let ?s0 = "s\<lparr>tgt := (tgt s)\<lparr>in_ch := Some (c\<lparr>buf := rest\<rparr>)\<rparr>\<rparr>"
  have rcv: "chan_recv (in_ch (tgt s)) = Received (Some r) (c\<lparr>buf := rest\<rparr>)"
    by (rule chan_recv_head [OF q])
  have w: "Write r ?s0 = (wr r, s1)"
    using wr by (simp add: Write_def s1_def)
  have err: "start s = start (ReportError (logr r) e (Counter_Inc (errorCounter (tgt s)) s1))"
    if "wr r = WriteErr e"
    using start_err [OF rcv ordinary, of e] that w by simp
  have ok: "start s = start (Counter_Inc (loggedCounter (tgt s)) s1)" if "wr r = WriteOk"
    using start_ok [OF rcv ordinary] that w by simp
  have c1: "counters s1 = counters s" "logrs s1 = logrs s" "written s1 = written s @ [r]"
    "in_ch (tgt s1) = Some (c\<lparr>buf := rest\<rparr>)"
    by (simp_all add: s1_def)
  show ?thesis
    using err ok c1
    by (simp add: Counter_Inc_counters ReportError_def Counter_Inc_def split: option.splits)
qed

theorem C5_worker_write_witness:
  "flush_marker (example_rec ''bad'') = None
   \<and> example_writer (example_rec ''bad'') = WriteErr ''disk full''
   \<and> counters (snd (start (example_system example_logr [example_rec ''bad'']))) 2 = 1
   \<and> counters (snd (start (example_system example_logr [example_rec ''bad'']))) 1 = 0
   \<and> reported (logrs (snd (start (example_system example_logr [example_rec ''bad'']))) 0)
       = [''disk full'']
   \<and> written (snd (start (example_system example_logr [example_rec ''bad''])))
       = [example_rec ''bad'']
   \<and> example_writer (example_rec ''good'') = WriteOk
   \<and> counters (snd (start (example_system example_logr [example_rec ''good'']))) 1 = 1
   \<and> counters (snd (start (example_system example_logr [example_rec ''good'']))) 2 = 0"
proof -
  let ?c = "\<lambda>t. \<lparr>buf = [example_rec t], capacity = 1, is_closed = False, parked = False\<rparr>"
  let ?S = "\<lambda>t. example_system example_logr [example_rec t]"
  note bad = C5_worker_write [where s = "?S ''bad''" and c = "?c ''bad''"
      and r = "example_rec ''bad''" and rest = "[]" and wr = example_writer and e = "''disk full''"]
  note good = C5_worker_write [where s = "?S ''good''" and c = "?c ''good''"
      and r = "example_rec ''good''" and rest = "[]" and wr = example_writer and e = "''disk full''"]
  have w: "example_writer (example_rec ''bad'') = WriteErr ''disk full''"
    "example_writer (example_rec ''good'') = WriteOk"
    by (simp_all add: example_writer_def example_rec_def)
  have 1: "start (?S ''bad'') =
      start (ReportError (logr (example_rec ''bad'')) ''disk full''
        (Counter_Inc (errorCounter (tgt (?S ''bad'')))
          ((?S ''bad'')\<lparr>tgt := (tgt (?S ''bad''))\<lparr>in_ch := Some ((?c ''bad'')\<lparr>buf := []\<rparr>)\<rparr>,
             written := written (?S ''bad'') @ [example_rec ''bad'']\<rparr>)))"
    using bad w by (simp add: example_system_simps example_basic_eq example_rec_def)
  have 2: "start (?S ''good'') =
      start (Counter_Inc (loggedCounter (tgt (?S ''good'')))
          ((?S ''good'')\<lparr>tgt := (tgt (?S ''good''))\<lparr>in_ch := Some ((?c ''good'')\<lparr>buf := []\<rparr>)\<rparr>,
             written := written (?S ''good'') @ [example_rec ''good'']\<rparr>))"
    using good w by (simp add: example_system_simps example_basic_eq example_rec_def)
  show ?thesis
    unfolding 1 2
    by (subst start_example_empty [where n = 1],
        simp add: example_system_simps example_basic_eq ReportError_def Counter_Inc_def)+
      (simp add: example_system_simps example_basic_eq ReportError_def Counter_Inc_def
        example_rec_def example_writer_def example_logr_def)
qed

text \<open>
  Claim C6. In a flush drain, an ordinary record that is written successfully leaves
  every counter as it was, the logged counter among them, where the worker's own loop
  gives the logged counter one \<open>Inc\<close> for the same record. A failed write in the drain
  still gives the error counter one \<open>Inc\<close> and reports the error. Over a whole drain no
  counter but the error counter changes.
\<close>

theorem C6_flush_write:
  assumes q: "in_ch (tgt s) = Some c" "buf c = r # rest"
    and ordinary: "flush_marker r = None"
    and wr: "b_w (tgt s) = Some wr"
  defines "s1 \<equiv> s\<lparr>tgt := (tgt s)\<lparr>in_ch := Some (c\<lparr>buf := rest\<rparr>)\<rparr>, written := written s @ [r]\<rparr>"
  shows "(wr r = WriteOk \<longrightarrow>
            flush dn s = flush dn s1 \<and> counters s1 = counters s
            \<and> start s = start (Counter_Inc (loggedCounter (tgt s)) s1))
       \<and> (wr r = WriteErr e \<longrightarrow>
            flush dn s = flush dn (ReportError (logr r) e (Counter_Inc (errorCounter (tgt s)) s1))
            \<and> (\<forall>k. counters (ReportError (logr r) e (Counter_Inc (errorCounter (tgt s)) s1)) k =
                  (if errorCounter (tgt s) = Some k then counters s k + 1 else counters s k))
            \<and> reported (logrs (ReportError (logr r) e (Counter_Inc (errorCounter (tgt s)) s1)) (logr r))
                = reported (logrs s (logr r)) @ [e])
       \<and> (\<forall>k. errorCounter (tgt s) \<noteq> Some k \<longrightarrow> counters (snd (flush dn s)) k = counters s k)"
proof -
  let ?s0 = "s\<lparr>tgt := (tgt s)\<lparr>in_ch := Some (c\<lparr>buf := rest\<rparr>)\<rparr>\<rparr>"
  have rcv: "chan_recv (in_ch (tgt s)) = Received (Some r) (c\<lparr>buf := rest\<rparr>)"
    by (rule chan_recv_head [OF q])
  have w: "Write r ?s0 = (wr r, s1)"
    using wr by (simp add: Write_def s1_def)
  have ok: "flush dn s = flush dn s1" if "wr r = WriteOk"
    using flush_ok [OF rcv ordinary] that w by simp
  have ok': "start s = start (Counter_Inc (loggedCounter (tgt s)) s1)" if "wr r = WriteOk"
    using start_ok [OF rcv ordinary] that w by simp
  have err: "flush dn s = flush dn (ReportError (logr r) e (Counter_Inc (errorCounter (tgt s)) s1))"
    if "wr r = WriteErr e"
    using flush_err [OF rcv ordinary, of e] that w by simp
  have c1: "counters s1 = counters s" "logrs s1 = logrs s"
    by (simp_all add: s1_def)
  show ?thesis
    using ok ok' err c1 flush_counters [of s _ dn]
    by (simp add: Counter_Inc_counters ReportError_def Counter_Inc_def split: option.splits)
qed

theorem C6_flush_write_witness:
  "flush_marker (example_rec ''good'') = None
   \<and> example_writer (example_rec ''good'') = WriteOk
   \<and> counters (snd (flush 7 (example_system example_logr [example_rec ''good'']))) 1 = 0
   \<and> written (snd (flush 7 (example_system example_logr [example_rec ''good''])))
       = [example_rec ''good'']
   \<and> flushed (snd (flush 7 (example_system example_logr [example_rec ''good'']))) = [7]
   \<and> example_writer (example_rec ''bad'') = WriteErr ''disk full''
   \<and> counters (snd (flush 7 (example_system example_logr [example_rec ''bad'']))) 2 = 1
   \<and> counters (snd (flush 7 (example_system example_logr [example_rec ''bad'']))) 1 = 0
   \<and> reported (logrs (snd (flush 7 (example_system example_logr [example_rec ''bad'']))) 0)
       = [''disk full'']"
proof -
  let ?c = "\<lambda>t. \<lparr>buf = [example_rec t], capacity = 1, is_closed = False, parked = False\<rparr>"
  let ?S = "\<lambda>t. example_system example_logr [example_rec t]"
  note bad = C6_flush_write [where s = "?S ''bad''" and c = "?c ''bad''"
      and r = "example_rec ''bad''" and rest = "[]" and wr = example_writer
      and e = "''disk full''" and dn = 7]
  note good = C6_flush_write [where s = "?S ''good''" and c = "?c ''good''"
      and r = "example_rec ''good''" and rest = "[]" and wr = example_writer
      and e = "''disk full''" and dn = 7]
  have w: "example_writer (example_rec ''bad'') = WriteErr ''disk full''"
    "example_writer (example_rec ''good'') = WriteOk"
    by (simp_all add: example_writer_def example_rec_def)
  have 1: "flush 7 (?S ''bad'') =
      flush 7 (ReportError (logr (example_rec ''bad'')) ''disk full''
        (Counter_Inc (errorCounter (tgt (?S ''bad'')))
          ((?S ''bad'')\<lparr>tgt := (tgt (?S ''bad''))\<lparr>in_ch := Some ((?c ''bad'')\<lparr>buf := []\<rparr>)\<rparr>,
             written := written (?S ''bad'') @ [example_rec ''bad'']\<rparr>)))"
    using bad w by (simp add: example_system_simps example_basic_eq example_rec_def)
  have 2: "flush 7 (?S ''good'') =
      flush 7 ((?S ''good'')\<lparr>tgt := (tgt (?S ''good''))\<lparr>in_ch := Some ((?c ''good'')\<lparr>buf := []\<rparr>)\<rparr>,
             written := written (?S ''good'') @ [example_rec ''good'']\<rparr>)"
    using good w by (simp add: example_system_simps example_basic_eq example_rec_def)
  show ?thesis
    unfolding 1 2
    by (subst flush_example_empty [where n = 1],
        simp add: example_system_simps example_basic_eq ReportError_def Counter_Inc_def)+
      (simp add: example_system_simps example_basic_eq ReportError_def Counter_Inc_def
        example_rec_def example_writer_def example_logr_def)
qed

text \<open>
  A queue at which the worker is parked takes a record whatever its capacity: \<open>Log\<close>
  hands the record over and returns, calling no hook and touching no counter. Such a
  queue is not full.
\<close>

lemma Log_parked_worker:
  assumes "in_ch (tgt s) = Some c" "\<not> is_closed c" "parked c"
  shows "Log r s =
           (Returns (), s\<lparr>tgt := (tgt s)\<lparr>in_ch := Some (c\<lparr>parked := False\<rparr>)\<rparr>, in_hand := Some r\<rparr>)"
  using assms by (simp add: Log_def chan_send_def Let_def)

text \<open>
  Claim C1. \<open>Log\<close> on a started, open target whose queue is full: the buffer holds as
  many records as its capacity and no worker is parked at the queue to take one over, so
  that the non-blocking send is not ready. If an overflow hook is registered and returns
  true, the dropped counter receives one \<open>Inc\<close> (it is incremented by exactly one when
  the handle is attached; no other counter changes), the queue and the error sinks stay
  as they were, and \<open>Log\<close> returns. Otherwise the blocked counter receives one \<open>Inc\<close>
  and \<open>Log\<close> waits at its second \<open>select\<close>: it keeps waiting while the queue is as
  it was; it enqueues and returns once the worker has taken a record from the buffer, and
  hands its record over and returns once the worker has drained the queue and parked;
  and when the timer fires it reports an error containing \<open>target enqueue timeout\<close>
  to the logger that owns the record and returns with the queue unchanged.
\<close>

theorem C1_Log_full_queue:
  fixes s :: System and r :: LogRec
  assumes q: "in_ch (tgt s) = Some c" "\<not> is_closed c" "length (buf c) = capacity c"
    "\<not> parked c"
  defines "drops \<equiv> (case OnTargetQueueFull (logrs s (logr r)) of
                      None \<Rightarrow> False
                    | Some handler \<Rightarrow> handler (target (tgt s)) r (capacity c))"
    and "sb \<equiv> Counter_Inc (blockedCounter (tgt s)) s"
  shows "chan_send (in_ch (tgt s)) r = SendNotReady
       \<and> (drops \<longrightarrow>
            Log r s = (Returns (), Counter_Inc (droppedCounter (tgt s)) s)
            \<and> (\<forall>k. counters (snd (Log r s)) k =
                  (if droppedCounter (tgt s) = Some k then counters s k + 1 else counters s k))
            \<and> in_ch (tgt (snd (Log r s))) = in_ch (tgt s)
            \<and> in_hand (snd (Log r s)) = in_hand s
            \<and> logrs (snd (Log r s)) = logrs s)
       \<and> (\<not> drops \<longrightarrow>
            Log r s = (Waits, sb)
            \<and> (\<forall>k. counters sb k =
                  (if blockedCounter (tgt s) = Some k then counters s k + 1 else counters s k))
            \<and> Log_select SendReady r sb = (Waits, sb)
            \<and> (0 < capacity c \<longrightarrow>
                 Log_select SendReady r
                   (sb\<lparr>tgt := (tgt sb)\<lparr>in_ch := Some (c\<lparr>buf := tl (buf c)\<rparr>)\<rparr>\<rparr>)
                 = (Returns (),
                    sb\<lparr>tgt := (tgt sb)\<lparr>in_ch := Some (c\<lparr>buf := tl (buf c) @ [r]\<rparr>)\<rparr>\<rparr>))
            \<and> Log_select SendReady r
                 (sb\<lparr>tgt := (tgt sb)\<lparr>in_ch := Some (c\<lparr>buf := [], parked := True\<rparr>)\<rparr>\<rparr>)
               = (Returns (),
                  sb\<lparr>tgt := (tgt sb)\<lparr>in_ch := Some (c\<lparr>buf := [], parked := False\<rparr>)\<rparr>,
                     in_hand := Some r\<rparr>)
            \<and> Log_select TimerFired r sb =
                (Returns (), ReportError (logr r) (enqueue_timeout_error r) sb)
            \<and> sublist ''target enqueue timeout'' (enqueue_timeout_error r)
            \<and> reported (logrs (snd (Log_select TimerFired r sb)) (logr r)) =
                reported (logrs s (logr r)) @ [enqueue_timeout_error r]
            \<and> in_ch (tgt (snd (Log_select TimerFired r sb))) = in_ch (tgt s)
            \<and> in_hand (snd (Log_select TimerFired r sb)) = in_hand s)"
proof -
  have full: "chan_send (in_ch (tgt s)) r = SendNotReady"
    using q by (simp add: chan_send_def)
  have cap: "chan_cap (in_ch (tgt s)) = capacity c"
    using q by (simp add: chan_cap_def)
  have d: "Log r s = (Returns (), Counter_Inc (droppedCounter (tgt s)) s)" if drops
    using that full cap by (simp add: Log_def drops_def Let_def split: option.splits)
  have b: "Log r s = (Waits, sb)" if "\<not> drops"
    using that full cap by (simp add: Log_def drops_def sb_def Let_def split: option.splits)
  have sb_tgt: "tgt sb = tgt s" "logrs sb = logrs s" "in_hand sb = in_hand s"
    by (simp_all add: sb_def Counter_Inc_def split: option.splits)
  have dr: "in_hand (Counter_Inc (droppedCounter (tgt s)) s) = in_hand s"
    by (simp add: Counter_Inc_def split: option.splits)
  have w1: "Log_select SendReady r sb = (Waits, sb)"
    using full by (simp add: Log_select_def sb_tgt)
  have w2: "Log_select TimerFired r sb =
      (Returns (), ReportError (logr r) (enqueue_timeout_error r) sb)"
    by (simp add: Log_select_def)
  have w3: "Log_select SendReady r (sb\<lparr>tgt := (tgt sb)\<lparr>in_ch := Some (c\<lparr>buf := tl (buf c)\<rparr>)\<rparr>\<rparr>)
      = (Returns (), sb\<lparr>tgt := (tgt sb)\<lparr>in_ch := Some (c\<lparr>buf := tl (buf c) @ [r]\<rparr>)\<rparr>\<rparr>)"
    if "0 < capacity c"
    using q that by (auto simp: Log_select_def chan_send_def)
  have w4: "Log_select SendReady r
        (sb\<lparr>tgt := (tgt sb)\<lparr>in_ch := Some (c\<lparr>buf := [], parked := True\<rparr>)\<rparr>\<rparr>)
      = (Returns (),
         sb\<lparr>tgt := (tgt sb)\<lparr>in_ch := Some (c\<lparr>buf := [], parked := False\<rparr>)\<rparr>,
            in_hand := Some r\<rparr>)"
    using q by (simp add: Log_select_def chan_send_def)
  show ?thesis
    using full d b w1 w2 w3 w4 sb_tgt dr enqueue_timeout_error_contains [of r]
    by (simp add: Counter_Inc_counters ReportError_def sb_def)
qed

theorem C1_Log_full_queue_witness:
  "length (buf \<lparr>buf = [example_rec ''a''], capacity = 1, is_closed = False, parked = False\<rparr>) = 1
   \<and> fst (Log (example_rec ''b'')
             (example_system (example_logr\<lparr>OnTargetQueueFull := Some drop_always\<rparr>)
                [example_rec ''a''])) = Returns ()
   \<and> counters (snd (Log (example_rec ''b'')
             (example_system (example_logr\<lparr>OnTargetQueueFull := Some drop_always\<rparr>)
                [example_rec ''a'']))) 3 = 1
   \<and> fst (Log (example_rec ''b'') (example_system example_logr [example_rec ''a''])) = Waits
   \<and> counters (snd (Log (example_rec ''b'') (example_system example_logr [example_rec ''a'']))) 4 = 1
   \<and> reported (logrs (snd (Log_select TimerFired (example_rec ''b'')
        (snd (Log (example_rec ''b'') (example_system example_logr [example_rec ''a'']))))) 0)
       = [''target enqueue timeout for log rec [b]'']
   \<and> length (buf (make_chan 0 :: LogRec chan)) = capacity (make_chan 0 :: LogRec chan)
   \<and> fst (Log (example_rec ''b'') example_unbuffered) = Waits
   \<and> counters (snd (Log (example_rec ''b'') example_unbuffered)) 4 = 1"
  using C1_Log_full_queue
      [where s = "example_system (example_logr\<lparr>OnTargetQueueFull := Some drop_always\<rparr>)
                    [example_rec ''a'']"
         and c = "\<lparr>buf = [example_rec ''a''], capacity = 1, is_closed = False, parked = False\<rparr>"
         and r = "example_rec ''b''"]
    C1_Log_full_queue
      [where s = "example_system example_logr [example_rec ''a'']"
         and c = "\<lparr>buf = [example_rec ''a''], capacity = 1, is_closed = False, parked = False\<rparr>"
         and r = "example_rec ''b''"]
    C1_Log_full_queue
      [where s = example_unbuffered and c = "make_chan 0" and r = "example_rec ''b''"]
  by (simp add: example_system_simps example_basic_eq drop_always_def example_logr_def
      example_rec_def enqueue_timeout_error_def Counter_Inc_def ReportError_def
      example_unbuffered_def make_chan_def)

text \<open>
  The unbuffered queue from end to end. With the worker parked, \<open>Log\<close> returns at once,
  the blocked counter untouched, and the woken worker writes the record. With the worker
  busy, \<open>Log\<close> waits; once the worker has parked the send completes, and the worker
  writes the record.
\<close>

lemma unbuffered_hand_over:
  "fst (start example_unbuffered) = WorkerParked
   \<and> fst (Log (example_rec ''b'') (snd (start example_unbuffered))) = Returns ()
   \<and> counters (snd (Log (example_rec ''b'') (snd (start example_unbuffered)))) 4 = 0
   \<and> written (snd (start_resume (snd (Log (example_rec ''b'') (snd (start example_unbuffered))))))
       = [example_rec ''b'']
   \<and> fst (Log_select SendReady (example_rec ''b'')
            (snd (start (snd (Log (example_rec ''b'') example_unbuffered))))) = Returns ()
   \<and> written (snd (start_resume (snd (Log_select SendReady (example_rec ''b'')
            (snd (start (snd (Log (example_rec ''b'') example_unbuffered))))))))
       = [example_rec ''b'']"
proof -
  let ?r = "example_rec ''b''"
  let ?c = "\<lambda>p. \<lparr>buf = [] :: LogRec list, capacity = 0, is_closed = False, parked = p\<rparr>"
  have u: "tgt example_unbuffered = example_basic\<lparr>in_ch := Some (?c False)\<rparr>"
    "written example_unbuffered = []" "counters example_unbuffered = (\<lambda>c. 0)"
    "in_hand example_unbuffered = None"
    by (simp_all add: example_unbuffered_def example_system_def make_chan_def)
  have park: "start s = (WorkerParked, s\<lparr>tgt := (tgt s)\<lparr>in_ch := Some (?c True)\<rparr>\<rparr>)"
    if "in_ch (tgt s) = Some (?c False)" for s
    using that by (simp add: start_parked chan_recv_def chan_park_def)
  have run: "written (snd (start s)) = written s @ [?r]"
    if "in_ch (tgt s) = Some ((?c False)\<lparr>buf := [?r]\<rparr>)" "b_w (tgt s) = Some example_writer" for s
  proof -
    have rcv: "chan_recv (in_ch (tgt s)) = Received (Some ?r) (?c False)"
      using that by (simp add: chan_recv_def)
    have ord: "flush_marker ?r = None" by (simp add: example_rec_def)
    have wr: "fst (Write ?r (s\<lparr>tgt := (tgt s)\<lparr>in_ch := Some (?c False)\<rparr>\<rparr>)) = WriteOk"
      using that by (simp add: Write_def example_writer_def example_rec_def)
    show ?thesis
      unfolding start_ok [OF rcv ord wr]
      by (subst park) (simp_all add: Write_def that Counter_Inc_def split: option.splits)
  qed
  have resume: "written (snd (start_resume s)) = written s @ [?r]"
    if "in_ch (tgt s) = Some (?c False)" "in_hand s = Some ?r" "b_w (tgt s) = Some example_writer"
    for s
    using that by (simp add: start_resume_def run)
  have 1: "start example_unbuffered =
      (WorkerParked, example_unbuffered\<lparr>tgt := (tgt example_unbuffered)\<lparr>in_ch := Some (?c True)\<rparr>\<rparr>)"
    by (rule park) (simp add: u)
  have 2: "Log ?r example_unbuffered =
      (Waits, Counter_Inc (blockedCounter (tgt example_unbuffered)) example_unbuffered)"
    by (simp add: Log_def chan_send_def Let_def u example_logr_def example_unbuffered_def
        example_system_def make_chan_def)
  have 3: "start (snd (Log ?r example_unbuffered)) =
      (WorkerParked,
       (Counter_Inc (blockedCounter (tgt example_unbuffered)) example_unbuffered)
         \<lparr>tgt := (tgt example_unbuffered)\<lparr>in_ch := Some (?c True)\<rparr>\<rparr>)"
    unfolding 2 by (subst park) (simp_all add: u)
  show ?thesis
    unfolding 1 3
    by (simp add: Log_def Log_select_def chan_send_def Let_def u resume example_basic_eq
        Counter_Inc_def)
qed

text \<open>
  Claim C8. The effective tick interval of the sampler is \<open>updateFreqMillis\<close> when that
  is at least 250, 15000 when it is zero, and the floor 250 for every other value. The
  code misses it at large values: the interval is handed to the timer as
  \<open>time.Duration(updateFreq) * time.Millisecond\<close>, an \<open>int64\<close> of nanoseconds, and
  the product is not guarded. At 9223372036855 milliseconds it wraps around to a negative
  duration, on which the timer fires at once: the sampler then runs without pause, which
  the floor (\<open>don't peg the CPU\<close>) is there to prevent.
\<close>

theorem C8_tick_duration_overflow:
  "sint (metricsUpdateFreqMillis (Basic_zero\<lparr>metricsUpdateFreqMillis := 9223372036855\<rparr>)) = 9223372036855
   \<and> sint (updateFreq (Basic_zero\<lparr>metricsUpdateFreqMillis := 9223372036855\<rparr>)) = 9223372036855
   \<and> sint (tickDuration (Basic_zero\<lparr>metricsUpdateFreqMillis := 9223372036855\<rparr>))
       = - 9223372036854551616
   \<and> sint (tickDuration (Basic_zero\<lparr>metricsUpdateFreqMillis := 9223372036855\<rparr>))
       \<noteq> 9223372036855 * 1000000"
  by (simp add: tickDuration_def updateFreq_def Millisecond_def Let_def
      DefMetricsUpdateFreqMillis_def word_sless_alt)

text \<open>
  Short of the overflow the sampler does what the claim says. For every
  \<open>updateFreqMillis\<close> the local \<open>updateFreq\<close> is that value when it is at least 250,
  15000 when it is zero and 250 for every other value below 250; and for every value up
  to 9223372036854 the duration handed to the timer is exactly that many milliseconds.
\<close>

lemma tick_interval_in_range:
  "updateFreq b =
     (if 250 \<le>s metricsUpdateFreqMillis b then metricsUpdateFreqMillis b
      else if metricsUpdateFreqMillis b = 0 then 15000 else 250)
   \<and> (sint (metricsUpdateFreqMillis b) \<le> 9223372036854 \<longrightarrow>
        sint (tickDuration b) =
          1000000 *
          (if 250 \<le> sint (metricsUpdateFreqMillis b) then sint (metricsUpdateFreqMillis b)
           else if metricsUpdateFreqMillis b = 0 then 15000 else 250))"
proof -
  have "sint (tickDuration b) = sint (updateFreq b) * 1000000"
    if "sint (metricsUpdateFreqMillis b) \<le> 9223372036854"
    unfolding tickDuration_def
    by (rule sint_times_Millisecond) (use that in \<open>auto simp: sint_updateFreq\<close>)
  then show ?thesis
    by (simp add: updateFreq_cases [symmetric] sint_updateFreq [symmetric])
qed

lemma tick_interval_in_range_examples:
  "sint (1000 :: 64 word) \<le> 9223372036854
   \<and> sint (tickDuration (Basic_zero\<lparr>metricsUpdateFreqMillis := 1000\<rparr>)) = 1000000000
   \<and> sint (tickDuration (Basic_zero\<lparr>metricsUpdateFreqMillis := 0\<rparr>)) = 15000000000
   \<and> sint (tickDuration (Basic_zero\<lparr>metricsUpdateFreqMillis := 100\<rparr>)) = 250000000
   \<and> sint (tickDuration (Basic_zero\<lparr>metricsUpdateFreqMillis := - 5\<rparr>)) = 250000000"
  using tick_interval_in_range [of "Basic_zero\<lparr>metricsUpdateFreqMillis := 1000\<rparr>"]
    tick_interval_in_range [of "Basic_zero\<lparr>metricsUpdateFreqMillis := 0\<rparr>"]
    tick_interval_in_range [of "Basic_zero\<lparr>metricsUpdateFreqMillis := 100\<rparr>"]
    tick_interval_in_range [of "Basic_zero\<lparr>metricsUpdateFreqMillis := - 5\<rparr>"]
  by simp

end
